theory Spec2Isabelle
  imports Complex_Main
begin

section \<open>VRAM guard: a shallow embedding of vram\_guard.py\<close>

text \<open>
  The program watches GPU memory through \<^verbatim>\<open>nvidia-smi\<close> and asks a local Ollama
  service to unload its models when usage exceeds a threshold. Every coroutine of the
  source becomes a function that returns the list of effects it performed (process
  spawn, HTTP requests, sleeps, log calls) together with either its return value or
  the exception that left it. The answers of the outside world (what the subprocess
  printed, what the service replied, whether an await was interrupted) are inputs.

  Conventions of the embedding:
  \<^item> a Python \<^verbatim>\<open>float\<close> is the real number it denotes; rounding of float addition and
    the values \<^verbatim>\<open>inf\<close> and \<^verbatim>\<open>nan\<close> are outside the model;
  \<^item> the builtin \<^verbatim>\<open>float(str)\<close> is a parameter \<open>pf\<close> of type
    \<open>string \<Rightarrow> real option\<close>, \<open>None\<close> standing for \<^verbatim>\<open>ValueError\<close>;
  \<^item> a Python \<^verbatim>\<open>str\<close> is a \<open>string\<close> whose characters are read as code points
    below 256;
  \<^item> a decoded JSON value is a \<open>json\<close>; a dict is an association list read with
    \<open>map_of\<close>.
\<close>

subsection \<open>Exceptions, effects and results\<close>

text \<open>
  The exception classes that the handlers of the source tell apart.
  \<open>OtherError\<close> is any further subclass of \<^verbatim>\<open>Exception\<close> (transport errors, timeouts,
  JSON decoding errors); \<open>CancelledError\<close> stands for the subclasses of
  \<^verbatim>\<open>BaseException\<close> that are neither \<^verbatim>\<open>Exception\<close> nor \<^verbatim>\<open>KeyboardInterrupt\<close>.
\<close>

datatype exn =
    FileNotFoundError
  | ValueError
  | AttributeError
  | TypeError
  | OtherError
  | KeyboardInterrupt
  | CancelledError

text \<open>\<^verbatim>\<open>isinstance(e, Exception)\<close>: what \<^verbatim>\<open>except Exception\<close> catches.\<close>

fun is_Exception :: "exn \<Rightarrow> bool" where
  "is_Exception KeyboardInterrupt = False"
| "is_Exception CancelledError = False"
| "is_Exception _ = True"

datatype json =
    JNull
  | JBool bool
  | JNum real
  | JStr string
  | JArr "json list"
  | JObj "(string \<times> json) list"

datatype level = DEBUG | INFO | WARNING | ERROR

text \<open>One constructor per logging call of the source, with the values it formats.\<close>

datatype message =
    SmiNotFound
  | ErrorReadingVram exn
  | CouldNotConnect string exn
  | DryRunWouldUnload json
  | UnloadingModel json
  | SuccessfullyUnloaded json
  | FailedToUnload json int
  | ErrorUnloading exn
  | GuardActive
  | ThresholdIs int
  | CheckIntervalIs int
  | OllamaUrlIs string
  | VramUnavailable
  | HighVram real int
  | FoundLoaded nat
  | NoOllamaModels
  | VramOk real
  | Stopping
  | UnexpectedError exn
  | ManualCleanup
  | NoModelsFound

datatype event =
    Run "string list"
  | Get string
  | Post string json
  | Sleep int
  | Log level message

type_synonym 'a res = "event list \<times> (exn + 'a)"

definition ret :: "'a \<Rightarrow> 'a res" where
  "ret x = ([], Inr x)"

definition emit :: "event \<Rightarrow> unit res" where
  "emit ev = ([ev], Inr ())"

text \<open>Sequencing: an exception of the first part skips the second.\<close>

definition and_then :: "'a res \<Rightarrow> ('a \<Rightarrow> 'b res) \<Rightarrow> 'b res" where
  "and_then m f =
     (case m of
        (t, Inl e) \<Rightarrow> (t, Inl e)
      | (t, Inr x) \<Rightarrow> (case f x of (t', r) \<Rightarrow> (t @ t', r)))"

definition then_do :: "unit res \<Rightarrow> 'a res \<Rightarrow> 'a res" where
  "then_do m n = and_then m (\<lambda>_. n)"

subsection \<open>Strings: \<^verbatim>\<open>str.strip\<close> and \<^verbatim>\<open>str.splitlines\<close>\<close>

text \<open>\<^verbatim>\<open>str.isspace\<close> on one character, for code points below 256.\<close>

definition is_space :: "char \<Rightarrow> bool" where
  "is_space c = ((of_char c :: nat) \<in> {9, 10, 11, 12, 13, 28, 29, 30, 31, 32, 133, 160})"

text \<open>The line boundaries of \<^verbatim>\<open>str.splitlines\<close>, for code points below 256.\<close>

definition is_linebreak :: "char \<Rightarrow> bool" where
  "is_linebreak c = ((of_char c :: nat) \<in> {10, 11, 12, 13, 28, 29, 30, 133})"

definition strip :: "string \<Rightarrow> string" where
  "strip s = rev (dropWhile is_space (rev (dropWhile is_space s)))"

text \<open>
  \<open>splitlines_from cur s\<close>: the lines of \<open>s\<close>, the first one prefixed by the
  characters \<open>cur\<close> already read. A carriage return followed by a line feed is one
  boundary; a final boundary opens no empty last line.
\<close>

fun splitlines_from :: "string \<Rightarrow> string \<Rightarrow> string list" where
  "splitlines_from cur [] = (if cur = [] then [] else [cur])"
| "splitlines_from cur [c] = (if is_linebreak c then [cur] else [cur @ [c]])"
| "splitlines_from cur (c # d # cs) =
     (if c = CHR 0x0D \<and> d = CHR 0x0A then cur # splitlines_from [] cs
      else if is_linebreak c then cur # splitlines_from [] (d # cs)
      else splitlines_from (cur @ [c]) (d # cs))"

definition splitlines :: "string \<Rightarrow> string list" where
  "splitlines s = splitlines_from [] s"

subsection \<open>The outside world\<close>

text \<open>What \<^verbatim>\<open>subprocess.run\<close> did: raised, or completed with a return code and stdout.\<close>

datatype run_outcome =
    RunRaises exn
  | Completed int string

text \<open>
  What the GET request did: raised (connection refused, timeout, interrupt), or gave a
  response with a status and the outcome that \<^verbatim>\<open>resp.json()\<close> has on its body.
\<close>

datatype get_outcome =
    GetRaises exn
  | Response int "exn + json"

datatype post_outcome =
    PostRaises exn
  | PostStatus int

text \<open>
  The answers of the world during one pass: \<open>smi\<close> for the subprocess, \<open>ps\<close> for the
  listing request, \<open>gen k\<close> for the request of the \<open>k\<close>-th \<^verbatim>\<open>unload_model\<close> call of
  the pass, \<open>sleep_try\<close> for the sleep inside the \<^verbatim>\<open>try\<close> block and
  \<open>sleep_handler\<close> for the one in the handler (\<open>None\<close>: slept through,
  \<open>Some e\<close>: the await raised \<open>e\<close>).
\<close>

record world =
  smi :: run_outcome
  ps :: get_outcome
  gen :: "nat \<Rightarrow> post_outcome"
  sleep_try :: "exn option"
  sleep_handler :: "exn option"

text \<open>The fields of \<^verbatim>\<open>VRAMManager\<close>.\<close>

record manager =
  threshold_mb :: int
  ollama_url :: string
  interval :: int
  dry_run :: bool
  system :: string

subsection \<open>\<^verbatim>\<open>VRAMManager.get_vram_usage\<close>\<close>

definition nvidia_smi :: "string list" where
  "nvidia_smi =
     [''nvidia-smi'', ''--query-gpu=memory.used'', ''--format=csv,noheader,nounits'']"

text \<open>
  \<^verbatim>\<open>sum(float(line) for line in lines)\<close>: the generator is consumed from the left, and the
  first line that \<^verbatim>\<open>float\<close> rejects raises \<^verbatim>\<open>ValueError\<close>.
\<close>

fun sum_floats :: "(string \<Rightarrow> real option) \<Rightarrow> real \<Rightarrow> string list \<Rightarrow> exn + real" where
  "sum_floats pf acc [] = Inr acc"
| "sum_floats pf acc (line # lines) =
     (case pf line of
        None \<Rightarrow> Inl ValueError
      | Some v \<Rightarrow> sum_floats pf (acc + v) lines)"

definition read_smi :: "(string \<Rightarrow> real option) \<Rightarrow> world \<Rightarrow> real option res" where
  "read_smi pf w =
     (case smi w of
        RunRaises e \<Rightarrow> ([Run nvidia_smi], Inl e)
      | Completed returncode stdout \<Rightarrow>
          (if returncode = 0 \<and> strip stdout \<noteq> [] then
             (case sum_floats pf 0 (splitlines (strip stdout)) of
                Inl e \<Rightarrow> ([Run nvidia_smi], Inl e)
              | Inr total_used \<Rightarrow> ([Run nvidia_smi], Inr (Some total_used)))
           else ([Run nvidia_smi], Inr None)))"

text \<open>
  \<open>read_smi\<close> is the body of the \<^verbatim>\<open>try\<close> block (\<open>Some\<close>: the \<^verbatim>\<open>return\<close> inside it
  was reached). The two handlers follow in the order of the source, then the final
  \<^verbatim>\<open>return 0.0\<close>.
\<close>

definition get_vram_usage :: "(string \<Rightarrow> real option) \<Rightarrow> world \<Rightarrow> real res" where
  "get_vram_usage pf w =
     (case read_smi pf w of
        (t, Inr (Some total_used)) \<Rightarrow> (t, Inr total_used)
      | (t, Inr None) \<Rightarrow> (t, Inr 0)
      | (t, Inl e) \<Rightarrow>
          (if e = FileNotFoundError then (t @ [Log DEBUG SmiNotFound], Inr 0)
           else if is_Exception e then (t @ [Log ERROR (ErrorReadingVram e)], Inr 0)
           else (t, Inl e)))"

subsection \<open>Python operations on decoded JSON values\<close>

text \<open>\<^verbatim>\<open>bool(v)\<close>, as \<^verbatim>\<open>if loaded:\<close> evaluates it.\<close>

fun truthy :: "json \<Rightarrow> bool" where
  "truthy JNull = False"
| "truthy (JBool b) = b"
| "truthy (JNum x) = (x \<noteq> 0)"
| "truthy (JStr s) = (s \<noteq> [])"
| "truthy (JArr xs) = (xs \<noteq> [])"
| "truthy (JObj kvs) = (kvs \<noteq> [])"

text \<open>\<^verbatim>\<open>v.get(key, default)\<close>: only a dict has the method.\<close>

fun py_get :: "json \<Rightarrow> string \<Rightarrow> json \<Rightarrow> exn + json" where
  "py_get (JObj kvs) key dflt = Inr (case map_of kvs key of None \<Rightarrow> dflt | Some v \<Rightarrow> v)"
| "py_get _ key dflt = Inl AttributeError"

text \<open>\<^verbatim>\<open>len(v)\<close>: numbers, booleans and \<^verbatim>\<open>None\<close> have no length.\<close>

fun py_len :: "json \<Rightarrow> exn + nat" where
  "py_len (JStr s) = Inr (length s)"
| "py_len (JArr xs) = Inr (length xs)"
| "py_len (JObj kvs) = Inr (length kvs)"
| "py_len _ = Inl TypeError"

text \<open>
  The elements that \<^verbatim>\<open>for model in v\<close> visits: the items of a list, the characters of
  a string, the keys of a dict; other values are not iterable.
\<close>

fun py_iter :: "json \<Rightarrow> exn + json list" where
  "py_iter (JArr xs) = Inr xs"
| "py_iter (JStr s) = Inr (map (\<lambda>c. JStr [c]) s)"
| "py_iter (JObj kvs) = Inr (map (\<lambda>kv. JStr (fst kv)) kvs)"
| "py_iter _ = Inl TypeError"

definition lift :: "exn + 'a \<Rightarrow> 'a res" where
  "lift r = ([], r)"

subsection \<open>\<^verbatim>\<open>VRAMManager.get_loaded_models\<close>\<close>

definition fetch_models :: "manager \<Rightarrow> world \<Rightarrow> json option res" where
  "fetch_models self w =
     (case ps w of
        GetRaises e \<Rightarrow> ([Get (ollama_url self @ ''/api/ps'')], Inl e)
      | Response status body \<Rightarrow>
          (if status = 200 then
             (case body of
                Inl e \<Rightarrow> ([Get (ollama_url self @ ''/api/ps'')], Inl e)
              | Inr data \<Rightarrow>
                  (case py_get data ''models'' (JArr []) of
                     Inl e \<Rightarrow> ([Get (ollama_url self @ ''/api/ps'')], Inl e)
                   | Inr models \<Rightarrow> ([Get (ollama_url self @ ''/api/ps'')], Inr (Some models))))
           else ([Get (ollama_url self @ ''/api/ps'')], Inr None)))"

text \<open>
  \<open>fetch_models\<close> is the body of the \<^verbatim>\<open>try\<close> block (\<open>Some\<close>: its \<^verbatim>\<open>return\<close> was
  reached); the handler logs and falls through to \<^verbatim>\<open>return []\<close>.
\<close>

definition get_loaded_models :: "manager \<Rightarrow> world \<Rightarrow> json res" where
  "get_loaded_models self w =
     (case fetch_models self w of
        (t, Inr (Some models)) \<Rightarrow> (t, Inr models)
      | (t, Inr None) \<Rightarrow> (t, Inr (JArr []))
      | (t, Inl e) \<Rightarrow>
          (if is_Exception e
           then (t @ [Log ERROR (CouldNotConnect (ollama_url self) e)], Inr (JArr []))
           else (t, Inl e)))"

subsection \<open>\<^verbatim>\<open>VRAMManager.unload_model\<close>\<close>

definition payload :: "json \<Rightarrow> json" where
  "payload model_name = JObj [(''model'', model_name), (''keep_alive'', JNum 0)]"

text \<open>\<open>answer\<close> is what the POST request of this call does, if the call makes one.\<close>

definition unload_model :: "manager \<Rightarrow> post_outcome \<Rightarrow> json \<Rightarrow> unit res" where
  "unload_model self answer model_name =
     (if dry_run self then ([Log INFO (DryRunWouldUnload model_name)], Inr ())
      else
        (case answer of
           PostRaises e \<Rightarrow>
             (if is_Exception e
              then ([Log INFO (UnloadingModel model_name),
                     Post (ollama_url self @ ''/api/generate'') (payload model_name),
                     Log ERROR (ErrorUnloading e)], Inr ())
              else ([Log INFO (UnloadingModel model_name),
                     Post (ollama_url self @ ''/api/generate'') (payload model_name)], Inl e))
         | PostStatus status \<Rightarrow>
             (if status = 200
              then ([Log INFO (UnloadingModel model_name),
                     Post (ollama_url self @ ''/api/generate'') (payload model_name),
                     Log INFO (SuccessfullyUnloaded model_name)], Inr ())
              else ([Log INFO (UnloadingModel model_name),
                     Post (ollama_url self @ ''/api/generate'') (payload model_name),
                     Log WARNING (FailedToUnload model_name status)], Inr ()))))"

subsection \<open>The eviction loop and one tick of \<^verbatim>\<open>monitor_loop\<close>\<close>

text \<open>
  \<^verbatim>\<open>for model in loaded: await self.unload_model(model.get('name'))\<close>, the \<open>k\<close>-th call
  of the pass reading the answer \<open>gen w k\<close>.
\<close>

fun unload_each :: "manager \<Rightarrow> world \<Rightarrow> nat \<Rightarrow> json list \<Rightarrow> unit res" where
  "unload_each self w k [] = ret ()"
| "unload_each self w k (model # rest) =
     and_then (lift (py_get model ''name'' JNull)) (\<lambda>name.
       then_do (unload_model self (gen w k) name) (unload_each self w (Suc k) rest))"

definition sleep :: "int \<Rightarrow> exn option \<Rightarrow> unit res" where
  "sleep secs answer =
     (case answer of None \<Rightarrow> ([Sleep secs], Inr ()) | Some e \<Rightarrow> ([Sleep secs], Inl e))"

text \<open>The body of the \<^verbatim>\<open>try\<close> block after the sample has been read.\<close>

definition on_sample :: "manager \<Rightarrow> world \<Rightarrow> real \<Rightarrow> unit res" where
  "on_sample self w vram_used =
     then_do
       (if vram_used = 0 \<and> system self \<noteq> ''Darwin'' then emit (Log DEBUG VramUnavailable)
        else if vram_used > real_of_int (threshold_mb self) then
          then_do (emit (Log WARNING (HighVram vram_used (threshold_mb self))))
            (and_then (get_loaded_models self w) (\<lambda>loaded.
               if truthy loaded then
                 and_then (lift (py_len loaded)) (\<lambda>n.
                   then_do (emit (Log INFO (FoundLoaded n)))
                     (and_then (lift (py_iter loaded)) (unload_each self w 0)))
               else emit (Log INFO NoOllamaModels)))
        else emit (Log DEBUG (VramOk vram_used)))
       (sleep (interval self) (sleep_try w))"

definition tick_body :: "(string \<Rightarrow> real option) \<Rightarrow> manager \<Rightarrow> world \<Rightarrow> unit res" where
  "tick_body pf self w = and_then (get_vram_usage pf w) (on_sample self w)"

subsection \<open>\<^verbatim>\<open>VRAMManager.monitor_loop\<close> and \<^verbatim>\<open>main\<close>\<close>

text \<open>
  The \<^verbatim>\<open>while True\<close> loop runs one tick per world of the list. The result is \<open>None\<close>
  when the supplied ticks are used up with the loop still running,
  \<open>Some (Inr ())\<close> when the loop was left by \<^verbatim>\<open>break\<close>, and \<open>Some (Inl e)\<close> when
  the exception \<open>e\<close> left it.
\<close>

type_synonym run = "event list \<times> (exn + unit) option"

definition after :: "event list \<Rightarrow> run \<Rightarrow> run" where
  "after t r = (t @ fst r, snd r)"

fun ticks :: "(string \<Rightarrow> real option) \<Rightarrow> manager \<Rightarrow> world list \<Rightarrow> run" where
  "ticks pf self [] = ([], None)"
| "ticks pf self (w # ws) =
     (case tick_body pf self w of
        (t, Inr _) \<Rightarrow> after t (ticks pf self ws)
      | (t, Inl e) \<Rightarrow>
          (if e = KeyboardInterrupt then (t @ [Log INFO Stopping], Some (Inr ()))
           else if is_Exception e then
             (case sleep (interval self) (sleep_handler w) of
                (t', Inr _) \<Rightarrow> after (t @ Log ERROR (UnexpectedError e) # t') (ticks pf self ws)
              | (t', Inl e') \<Rightarrow> (t @ Log ERROR (UnexpectedError e) # t', Some (Inl e')))
           else (t, Some (Inl e))))"

definition monitor_loop :: "(string \<Rightarrow> real option) \<Rightarrow> manager \<Rightarrow> world list \<Rightarrow> run" where
  "monitor_loop pf self ws =
     after [Log INFO GuardActive,
            Log INFO (ThresholdIs (threshold_mb self)),
            Log INFO (CheckIntervalIs (interval self)),
            Log INFO (OllamaUrlIs (ollama_url self))]
       (ticks pf self ws)"



text \<open>\<^verbatim>\<open>VRAMManager.__init__\<close>; \<open>platform\<close> is the value of \<^verbatim>\<open>platform.system()\<close>.\<close>

definition init :: "string \<Rightarrow> int \<Rightarrow> string \<Rightarrow> int \<Rightarrow> bool \<Rightarrow> manager" where
  "init platform threshold_mb' ollama_url' interval' dry_run' =
     \<lparr>threshold_mb = threshold_mb', ollama_url = ollama_url', interval = interval',
      dry_run = dry_run', system = platform\<rparr>"


subsection \<open>What a trace shows\<close>

text \<open>The URLs of the listing requests, the eviction requests and the arguments of the
  \<^verbatim>\<open>unload_model\<close> calls (each call logs its argument first), in the order of the trace.\<close>

fun listings :: "event list \<Rightarrow> string list" where
  "listings [] = []"
| "listings (Get url # t) = url # listings t"
| "listings (_ # t) = listings t"

fun posts :: "event list \<Rightarrow> (string \<times> json) list" where
  "posts [] = []"
| "posts (Post url body # t) = (url, body) # posts t"
| "posts (_ # t) = posts t"

fun unloads :: "event list \<Rightarrow> json list" where
  "unloads [] = []"
| "unloads (Log INFO (DryRunWouldUnload name) # t) = name # unloads t"
| "unloads (Log INFO (UnloadingModel name) # t) = name # unloads t"
| "unloads (_ # t) = unloads t"

fun sleeps :: "event list \<Rightarrow> int list" where
  "sleeps [] = []"
| "sleeps (Sleep secs # t) = secs # sleeps t"
| "sleeps (_ # t) = sleeps t"

fun is_Log :: "event \<Rightarrow> bool" where
  "is_Log (Log _ _) = True"
| "is_Log _ = False"

definition effects :: "event list \<Rightarrow> event list" where
  "effects t = filter (\<lambda>ev. \<not> is_Log ev) t"



subsection \<open>Concrete inputs\<close>

text \<open>
  An instance of the parameter for \<^verbatim>\<open>float\<close> on the lines that \<^verbatim>\<open>nvidia-smi\<close> prints
  with \<^verbatim>\<open>nounits\<close>: unsigned decimal integers. It is used in the concrete scenarios only.
\<close>

definition is_digit :: "char \<Rightarrow> bool" where
  "is_digit c = (48 \<le> (of_char c :: nat) \<and> (of_char c :: nat) \<le> 57)"

definition float_of_digits :: "string \<Rightarrow> real option" where
  "float_of_digits s =
     (if s \<noteq> [] \<and> list_all is_digit s
      then Some (real (foldl (\<lambda>a c. 10 * a + (of_char c - 48)) 0 s))
      else None)"

definition LF :: char where
  "LF = CHR 0x0A"

definition localhost :: string where
  "localhost = ''http://localhost:11434''"

text \<open>A world in which the tool prints \<open>out\<close>, the service lists \<open>models\<close> and accepts
  every eviction, and no await is interrupted.\<close>

definition calm :: "string \<Rightarrow> json list \<Rightarrow> world" where
  "calm out models =
     \<lparr>smi = Completed 0 out,
      ps = Response 200 (Inr (JObj [(''models'', JArr models)])),
      gen = (\<lambda>k. PostStatus 200),
      sleep_try = None,
      sleep_handler = None\<rparr>"

definition model :: "string \<Rightarrow> json" where
  "model name = JObj [(''name'', JStr name), (''size'', JNum 4096)]"

definition guard :: "int \<Rightarrow> bool \<Rightarrow> string \<Rightarrow> manager" where
  "guard t dry platform = init platform t localhost 1 dry"

definition linux_neg :: manager where
  "linux_neg = guard (- 1) False ''Linux''"

definition darwin_neg :: manager where
  "darwin_neg = guard (- 1) False ''Darwin''"

definition resident :: world where
  "resident = calm (''0'' @ [LF]) [model ''llama3'']"

text \<open>A host without \<^verbatim>\<open>nvidia-smi\<close> whose service holds one model.\<close>

definition no_gpu :: world where
  "no_gpu = (calm [] [model ''llama3'']) \<lparr>smi := RunRaises FileNotFoundError\<rparr>"

text \<open>
  The output of the tool with one line per device: every line ends with a line feed.
  A line is \<open>clean\<close> when it is not empty, has no line boundary inside and neither
  starts nor ends with white space.
\<close>

definition printed :: "string list \<Rightarrow> string" where
  "printed ls = concat (map (\<lambda>l. l @ [LF]) ls)"



text \<open>A tool that exits with an error, one that prints nothing, one that prints no number.\<close>

definition smi_failed :: world where
  "smi_failed = (calm [] []) \<lparr>smi := Completed 9 ''NVIDIA-SMI has failed''\<rparr>"

definition smi_silent :: world where
  "smi_silent = calm [] []"

definition smi_garbled :: world where
  "smi_garbled = calm (printed [''[N/A]'']) []"


text \<open>The \<open>k\<close>-th eviction request of the pass is answered or fails with an
  \<^verbatim>\<open>Exception\<close>; no interrupt arrives while it is awaited.\<close>

definition uninterrupted :: "world \<Rightarrow> nat \<Rightarrow> bool" where
  "uninterrupted w k = (case gen w k of PostRaises e \<Rightarrow> is_Exception e | PostStatus status \<Rightarrow> True)"





text \<open>The ticks of the three-tick scenario: a sample of 500 MB with no model loaded, and
  a sample of 1500 MB with the models A and B loaded.\<close>

definition quiet_tick :: world where
  "quiet_tick = calm (printed [''500'']) []"

definition busy_tick :: world where
  "busy_tick = calm (printed [''1500'']) [model ''A'', model ''B'']"

text \<open>
  In a \<open>steady\<close> tick every exception that the subprocess, the listing request, the
  decoding of its body and the eviction requests raise is an \<^verbatim>\<open>Exception\<close>, and the
  sleeps are not interrupted.
\<close>

definition steady :: "world \<Rightarrow> bool" where
  "steady w =
     ((case smi w of RunRaises e \<Rightarrow> is_Exception e | Completed returncode stdout \<Rightarrow> True) \<and>
      (case ps w of
         GetRaises e \<Rightarrow> is_Exception e
       | Response status body \<Rightarrow> (case body of Inl e \<Rightarrow> is_Exception e | Inr data \<Rightarrow> True)) \<and>
      (\<forall>k. uninterrupted w k) \<and>
      sleep_try w = None \<and> sleep_handler w = None)"

text \<open>A service whose eviction requests all fail with a transport error, and one whose
  list of models holds a string where a dict is expected.\<close>

definition flaky :: world where
  "flaky = (calm (printed [''1500'']) [model ''A'', model ''B'']) \<lparr>gen := (\<lambda>k. PostRaises OtherError)\<rparr>"

definition misshapen :: world where
  "misshapen = calm (printed [''1500'']) [JStr ''A'']"

text \<open>What the loop adds to the trace of a tick that ended with the result \<open>r\<close>.\<close>

definition recovery :: "manager \<Rightarrow> exn + unit \<Rightarrow> event list" where
  "recovery self r =
     (case r of
        Inr u \<Rightarrow> []
      | Inl e \<Rightarrow> [Log ERROR (UnexpectedError e), Sleep (interval self)])"

section \<open>Properties\<close>

subsection \<open>Traces of sequenced parts\<close>

lemma listings_append: "listings (s @ t) = listings s @ listings t"
  by (induction s rule: listings.induct) simp_all

lemma posts_append: "posts (s @ t) = posts s @ posts t"
  by (induction s rule: posts.induct) simp_all

lemma unloads_append: "unloads (s @ t) = unloads s @ unloads t"
  by (induction s rule: unloads.induct) simp_all

lemma sleeps_append: "sleeps (s @ t) = sleeps s @ sleeps t"
  by (induction s rule: sleeps.induct) simp_all

lemmas obs_append = listings_append posts_append unloads_append sleeps_append

lemma fst_and_then:
  "fst (and_then m f) = fst m @ (case snd m of Inl e \<Rightarrow> [] | Inr x \<Rightarrow> fst (f x))"
  by (simp add: and_then_def split: prod.splits sum.splits)

lemma snd_and_then:
  "snd (and_then m f) = (case snd m of Inl e \<Rightarrow> Inl e | Inr x \<Rightarrow> snd (f x))"
  by (simp add: and_then_def split: prod.splits sum.splits)

lemma fst_then_do:
  "fst (then_do m n) = fst m @ (case snd m of Inl e \<Rightarrow> [] | Inr x \<Rightarrow> fst n)"
  by (simp add: then_do_def fst_and_then)

lemma snd_then_do:
  "snd (then_do m n) = (case snd m of Inl e \<Rightarrow> Inl e | Inr x \<Rightarrow> snd n)"
  by (simp add: then_do_def snd_and_then)

lemmas seq_simps = fst_and_then snd_and_then fst_then_do snd_then_do

lemma get_loaded_models_obs:
  "listings (fst (get_loaded_models self w)) = [ollama_url self @ ''/api/ps'']"
  "posts (fst (get_loaded_models self w)) = []"
  "unloads (fst (get_loaded_models self w)) = []"
  "sleeps (fst (get_loaded_models self w)) = []"
  by (simp_all add: get_loaded_models_def fetch_models_def obs_append
      split: get_outcome.splits sum.splits option.splits)

lemma unload_model_obs:
  "listings (fst (unload_model self a n)) = []"
  "unloads (fst (unload_model self a n)) = [n]"
  "posts (fst (unload_model self a n)) =
     (if dry_run self then [] else [(ollama_url self @ ''/api/generate'', payload n)])"
  "sleeps (fst (unload_model self a n)) = []"
  by (simp_all add: unload_model_def split: post_outcome.splits)

lemma sleep_obs:
  "listings (fst (sleep n a)) = []" "posts (fst (sleep n a)) = []"
  "unloads (fst (sleep n a)) = []" "sleeps (fst (sleep n a)) = [n]"
  by (simp_all add: sleep_def split: option.splits)

lemma unload_each_quiet:
  "listings (fst (unload_each self w k ms)) = []" "sleeps (fst (unload_each self w k ms)) = []"
  by (induction ms arbitrary: k)
     (simp_all add: ret_def lift_def seq_simps obs_append unload_model_obs split: sum.splits)

subsection \<open>Dry run\<close>

text \<open>
  C7. With the dry-run flag set, \<^verbatim>\<open>unload_model\<close> only logs the intended action:
  whatever the model name and whatever the service would have answered, it sends no
  request and returns normally.
\<close>

theorem unload_model_dry_run:
  "dry_run self \<Longrightarrow>
     unload_model self answer name = ([Log INFO (DryRunWouldUnload name)], Inr ()) \<and>
     posts (fst (unload_model self answer name)) = [] \<and>
     listings (fst (unload_model self answer name)) = []"
  by (simp add: unload_model_def)

theorem unload_model_dry_run_witness:
  "dry_run (guard 1000 True ''Linux'') \<and>
   unload_model (guard 1000 True ''Linux'') (PostRaises OtherError) (JStr ''llama3'')
     = ([Log INFO (DryRunWouldUnload (JStr ''llama3''))], Inr ()) \<and>
   posts (fst (unload_model (guard 1000 True ''Linux'') (PostRaises OtherError) (JStr ''llama3''))) = []"
  using unload_model_dry_run [of "guard 1000 True ''Linux''" "PostRaises OtherError" "JStr ''llama3''"]
  by (simp add: guard_def init_def)

subsection \<open>The threshold decision\<close>

text \<open>A remediation pass is the branch that lists the loaded models: it shows in the
  trace as the listing request.\<close>

lemma on_sample_listings:
  "listings (fst (on_sample self w s)) =
     (if s > real_of_int (threshold_mb self) \<and> \<not> (s = 0 \<and> system self \<noteq> ''Darwin'')
      then [ollama_url self @ ''/api/ps''] else [])"
  by (simp add: on_sample_def seq_simps emit_def lift_def obs_append get_loaded_models_obs sleep_obs
        unload_each_quiet split: sum.splits)

lemma on_sample_quiet:
  "\<not> (s > real_of_int (threshold_mb self) \<and> \<not> (s = 0 \<and> system self \<noteq> ''Darwin'')) \<Longrightarrow>
     posts (fst (on_sample self w s)) = [] \<and> unloads (fst (on_sample self w s)) = []"
  by (auto simp add: on_sample_def seq_simps emit_def obs_append sleep_obs)

text \<open>
  C2 as stated fails: on a platform other than Darwin, with the threshold \<open>-1\<close>, the
  sample \<open>0\<close> exceeds the threshold and no pass is made, because the zero-sample
  guard is tested first.
\<close>

theorem policy_strict_counterexample:
  "(0::real) > real_of_int (threshold_mb linux_neg) \<and>
   listings (fst (on_sample linux_neg resident 0)) = []"
  by (simp add: on_sample_listings linux_neg_def guard_def init_def)

text \<open>
  C2, amended. For every sample \<open>s\<close> and threshold \<open>t\<close>, a remediation pass is made
  if and only if \<open>s > t\<close> and the zero-sample guard does not apply
  (the guard applies when \<open>s = 0\<close> and the platform is not Darwin); for every
  non-negative threshold that is: if and only if \<open>s > t\<close>. A sample equal to the
  threshold never triggers.
\<close>

theorem policy_trigger_iff:
  "(listings (fst (on_sample self w s)) \<noteq> [] \<longleftrightarrow>
      s > real_of_int (threshold_mb self) \<and> \<not> (s = 0 \<and> system self \<noteq> ''Darwin'')) \<and>
   (0 \<le> threshold_mb self \<longrightarrow>
      (listings (fst (on_sample self w s)) \<noteq> [] \<longleftrightarrow> s > real_of_int (threshold_mb self))) \<and>
   (s = real_of_int (threshold_mb self) \<longrightarrow>
      listings (fst (on_sample self w s)) = [] \<and> posts (fst (on_sample self w s)) = [] \<and>
      unloads (fst (on_sample self w s)) = [])"
proof (intro conjI impI)
  show "listings (fst (on_sample self w s)) \<noteq> [] \<longleftrightarrow>
      s > real_of_int (threshold_mb self) \<and> \<not> (s = 0 \<and> system self \<noteq> ''Darwin'')"
    by (simp add: on_sample_listings)
next
  assume "0 \<le> threshold_mb self"
  then show "listings (fst (on_sample self w s)) \<noteq> [] \<longleftrightarrow> s > real_of_int (threshold_mb self)"
    by (auto simp add: on_sample_listings)
next
  assume eq: "s = real_of_int (threshold_mb self)"
  then show "listings (fst (on_sample self w s)) = []"
    by (simp add: on_sample_listings)
  from eq show "posts (fst (on_sample self w s)) = []" "unloads (fst (on_sample self w s)) = []"
    using on_sample_quiet [where s = s and self = self and w = w] by simp_all
qed

theorem policy_trigger_iff_witness:
  "0 \<le> threshold_mb (guard 1000 False ''Linux'') \<and>
   listings (fst (on_sample (guard 1000 False ''Linux'') resident 1500)) \<noteq> [] \<and>
   listings (fst (on_sample (guard 1000 False ''Linux'') resident 1000)) = [] \<and>
   listings (fst (on_sample (guard 1000 False ''Linux'') resident 0)) = []"
  using policy_trigger_iff [of "guard 1000 False ''Linux''" resident 1500]
        policy_trigger_iff [of "guard 1000 False ''Linux''" resident 1000]
        policy_trigger_iff [of "guard 1000 False ''Linux''" resident 0]
  by (simp add: guard_def init_def)

text \<open>
  C3 as stated fails: on Darwin the zero-sample guard does not apply, so with the
  threshold \<open>-1\<close> a tick that samples \<open>0\<close> (no \<^verbatim>\<open>nvidia-smi\<close> on the host) lists
  the models and evicts the one that is loaded.
\<close>

theorem zero_sample_counterexample:
  "snd (get_vram_usage float_of_digits no_gpu) = Inr 0 \<and>
   listings (fst (tick_body float_of_digits darwin_neg no_gpu)) = [''http://localhost:11434/api/ps''] \<and>
   posts (fst (tick_body float_of_digits darwin_neg no_gpu)) =
     [(''http://localhost:11434/api/generate'',
       JObj [(''model'', JStr ''llama3''), (''keep_alive'', JNum 0)])]"
  by (simp add: tick_body_def get_vram_usage_def read_smi_def
      on_sample_def seq_simps emit_def lift_def obs_append get_loaded_models_def fetch_models_def
      sleep_def unload_model_def ret_def payload_def no_gpu_def
      darwin_neg_def guard_def init_def calm_def model_def localhost_def)

text \<open>
  C3, amended. A sample of exactly zero triggers a remediation pass only on Darwin
  with a negative threshold. For every non-negative threshold (including 0) on every
  platform, and for every threshold on a platform other than Darwin, a zero sample
  causes no model listing, no eviction call and no eviction request.
\<close>

theorem zero_sample_no_remediation:
  "(listings (fst (on_sample self w 0)) \<noteq> [] \<longleftrightarrow> system self = ''Darwin'' \<and> threshold_mb self < 0) \<and>
   (0 \<le> threshold_mb self \<or> system self \<noteq> ''Darwin'' \<longrightarrow>
      listings (fst (on_sample self w 0)) = [] \<and> posts (fst (on_sample self w 0)) = [] \<and>
      unloads (fst (on_sample self w 0)) = [])"
proof (intro conjI impI)
  show "listings (fst (on_sample self w 0)) \<noteq> [] \<longleftrightarrow> system self = ''Darwin'' \<and> threshold_mb self < 0"
    by (auto simp add: on_sample_listings)
next
  assume h: "0 \<le> threshold_mb self \<or> system self \<noteq> ''Darwin''"
  then show "listings (fst (on_sample self w 0)) = []"
    by (auto simp add: on_sample_listings)
  from h have "\<not> (0 > real_of_int (threshold_mb self) \<and> \<not> ((0::real) = 0 \<and> system self \<noteq> ''Darwin''))"
    by auto
  then show "posts (fst (on_sample self w 0)) = []" "unloads (fst (on_sample self w 0)) = []"
    using on_sample_quiet [where s = 0 and self = self and w = w] by simp_all
qed

theorem zero_sample_no_remediation_witness:
  "(0 \<le> threshold_mb (guard 0 False ''Darwin'') \<or> system (guard 0 False ''Darwin'') \<noteq> ''Darwin'') \<and>
   listings (fst (on_sample (guard 0 False ''Darwin'') resident 0)) = [] \<and>
   posts (fst (on_sample (guard 0 False ''Darwin'') resident 0)) = [] \<and>
   unloads (fst (on_sample (guard 0 False ''Darwin'') resident 0)) = [] \<and>
   listings (fst (on_sample (guard (- 1) False ''Linux'') resident 0)) = []"
  using zero_sample_no_remediation [of "guard 0 False ''Darwin''" resident]
        zero_sample_no_remediation [of "guard (- 1) False ''Linux''" resident]
  by (simp add: guard_def init_def)

subsection \<open>The platform\<close>

lemma unload_model_system: "unload_model (self\<lparr>system := p\<rparr>) a n = unload_model self a n"
  by (simp add: unload_model_def split: post_outcome.splits)

lemma unload_each_system: "unload_each (self\<lparr>system := p\<rparr>) w k = unload_each self w k"
proof
  fix ms show "unload_each (self\<lparr>system := p\<rparr>) w k ms = unload_each self w k ms"
    by (induction ms arbitrary: k) (simp_all add: unload_model_system)
qed

lemma get_loaded_models_system: "get_loaded_models (self\<lparr>system := p\<rparr>) w = get_loaded_models self w"
  by (simp add: get_loaded_models_def fetch_models_def split: get_outcome.splits sum.splits option.splits)

lemma effects_append: "effects (s @ t) = effects s @ effects t"
  by (simp add: effects_def)

lemma on_sample_nonzero_system:
  "s \<noteq> 0 \<Longrightarrow> on_sample (self\<lparr>system := p\<rparr>) w s = on_sample self w s"
  by (simp add: on_sample_def unload_each_system get_loaded_models_system cong: if_cong)

lemma on_sample_zero_system:
  assumes "0 < threshold_mb self"
  shows "effects (fst (on_sample (self\<lparr>system := p\<rparr>) w 0)) = [Sleep (interval self)]"
    and "snd (on_sample (self\<lparr>system := p\<rparr>) w 0) = snd (sleep (interval self) (sleep_try w))"
  using assms
  by (simp_all add: on_sample_def seq_simps emit_def effects_def sleep_def split: option.splits)

lemma on_sample_system:
  assumes "0 < threshold_mb self"
  shows "effects (fst (on_sample (self\<lparr>system := p\<rparr>) w s)) = effects (fst (on_sample (self\<lparr>system := q\<rparr>) w s))"
    and "snd (on_sample (self\<lparr>system := p\<rparr>) w s) = snd (on_sample (self\<lparr>system := q\<rparr>) w s)"
  using on_sample_zero_system [OF assms] on_sample_nonzero_system [of s]
  by (cases "s = 0"; simp)+

text \<open>
  C10. For a positive threshold, two ticks that differ only in the detected platform
  take the same decision: one makes a remediation pass exactly when the other does,
  for the sample read from the world and for every sample value \<open>s\<close>. They perform
  the same effects apart from log calls and end the same way.
\<close>

theorem platform_independent_decision:
  assumes "0 < threshold_mb self"
  shows "(listings (fst (tick_body pf (self\<lparr>system := p\<rparr>) w)) \<noteq> [] \<longleftrightarrow>
          listings (fst (tick_body pf (self\<lparr>system := q\<rparr>) w)) \<noteq> []) \<and>
         effects (fst (tick_body pf (self\<lparr>system := p\<rparr>) w)) =
           effects (fst (tick_body pf (self\<lparr>system := q\<rparr>) w)) \<and>
         snd (tick_body pf (self\<lparr>system := p\<rparr>) w) = snd (tick_body pf (self\<lparr>system := q\<rparr>) w) \<and>
         (listings (fst (on_sample (self\<lparr>system := p\<rparr>) w s)) \<noteq> [] \<longleftrightarrow>
          listings (fst (on_sample (self\<lparr>system := q\<rparr>) w s)) \<noteq> [])"
proof -
  have d: "listings (fst (on_sample (self\<lparr>system := p\<rparr>) w x)) =
           listings (fst (on_sample (self\<lparr>system := q\<rparr>) w x))" for x
    using assms by (auto simp add: on_sample_listings)
  have "listings (fst (tick_body pf (self\<lparr>system := p\<rparr>) w)) =
        listings (fst (tick_body pf (self\<lparr>system := q\<rparr>) w))"
    by (simp add: tick_body_def seq_simps obs_append d split: sum.splits)
  moreover have "effects (fst (tick_body pf (self\<lparr>system := p\<rparr>) w)) =
           effects (fst (tick_body pf (self\<lparr>system := q\<rparr>) w))"
    by (simp add: tick_body_def seq_simps effects_append on_sample_system(1) [OF assms, of p w _ q]
        split: sum.splits)
  moreover have "snd (tick_body pf (self\<lparr>system := p\<rparr>) w) = snd (tick_body pf (self\<lparr>system := q\<rparr>) w)"
    by (simp add: tick_body_def seq_simps on_sample_system(2) [OF assms, of p w _ q] split: sum.splits)
  ultimately show ?thesis using d by simp
qed

theorem platform_independent_decision_witness:
  "0 < threshold_mb (guard 1000 False ''Linux'') \<and>
   effects (fst (tick_body float_of_digits ((guard 1000 False ''Linux'')\<lparr>system := ''Darwin''\<rparr>) no_gpu)) =
   effects (fst (tick_body float_of_digits ((guard 1000 False ''Linux'')\<lparr>system := ''Linux''\<rparr>) no_gpu)) \<and>
   snd (tick_body float_of_digits ((guard 1000 False ''Linux'')\<lparr>system := ''Darwin''\<rparr>) no_gpu) =
   snd (tick_body float_of_digits ((guard 1000 False ''Linux'')\<lparr>system := ''Linux''\<rparr>) no_gpu)"
  using platform_independent_decision
    [of "guard 1000 False ''Linux''" float_of_digits "''Darwin''" no_gpu "''Linux''" 0]
  by (simp add: guard_def init_def)

subsection \<open>Sampling\<close>













lemma sum_floats_bad:
  "\<exists>line \<in> set ls. pf line = None \<Longrightarrow> sum_floats pf acc ls = Inl ValueError"
  by (induction ls arbitrary: acc) (auto split: option.splits)

lemma sum_floats_raises: "sum_floats pf acc ls = Inl e \<Longrightarrow> e = ValueError"
  by (induction ls arbitrary: acc) (auto split: option.splits)



text \<open>
  C4. \<^verbatim>\<open>get_vram_usage\<close> returns \<open>0.0\<close> on every failure of the measurement:
  \<^verbatim>\<open>subprocess.run\<close> raising any \<^verbatim>\<open>Exception\<close> (\<^verbatim>\<open>FileNotFoundError\<close> when the tool is
  missing), a non-zero exit code, an output that is empty once stripped, and an output
  with a line that \<^verbatim>\<open>float\<close> rejects. The only exception that can leave it is one that
  is not an \<^verbatim>\<open>Exception\<close> and was raised by the await itself (an interrupt).
\<close>

theorem get_vram_usage_failures:
  "(smi w = RunRaises e \<and> is_Exception e \<longrightarrow> snd (get_vram_usage pf w) = Inr 0) \<and>
   (smi w = Completed rc out \<and> rc \<noteq> 0 \<longrightarrow> get_vram_usage pf w = ([Run nvidia_smi], Inr 0)) \<and>
   (smi w = Completed rc out \<and> strip out = [] \<longrightarrow> get_vram_usage pf w = ([Run nvidia_smi], Inr 0)) \<and>
   (smi w = Completed rc out \<and> (\<exists>line \<in> set (splitlines (strip out)). pf line = None) \<longrightarrow>
      snd (get_vram_usage pf w) = Inr 0) \<and>
   (snd (get_vram_usage pf w) = Inl e \<longrightarrow> smi w = RunRaises e \<and> \<not> is_Exception e)"
proof (intro conjI impI)
  assume "smi w = RunRaises e \<and> is_Exception e"
  then show "snd (get_vram_usage pf w) = Inr 0"
    by (simp add: get_vram_usage_def read_smi_def)
next
  assume "smi w = Completed rc out \<and> rc \<noteq> 0"
  then show "get_vram_usage pf w = ([Run nvidia_smi], Inr 0)"
    by (simp add: get_vram_usage_def read_smi_def)
next
  assume "smi w = Completed rc out \<and> strip out = []"
  then show "get_vram_usage pf w = ([Run nvidia_smi], Inr 0)"
    by (simp add: get_vram_usage_def read_smi_def)
next
  assume "smi w = Completed rc out \<and> (\<exists>line \<in> set (splitlines (strip out)). pf line = None)"
  then show "snd (get_vram_usage pf w) = Inr 0"
    by (simp add: get_vram_usage_def read_smi_def sum_floats_bad)
next
  assume r: "snd (get_vram_usage pf w) = Inl e"
  then show "smi w = RunRaises e" "\<not> is_Exception e"
    by (auto simp add: get_vram_usage_def read_smi_def
        split: run_outcome.splits if_splits sum.splits dest: sum_floats_raises)
qed

theorem get_vram_usage_failures_witness:
  "snd (get_vram_usage float_of_digits no_gpu) = Inr 0 \<and>
   get_vram_usage float_of_digits smi_failed = ([Run nvidia_smi], Inr 0) \<and>
   get_vram_usage float_of_digits smi_silent = ([Run nvidia_smi], Inr 0) \<and>
   snd (get_vram_usage float_of_digits smi_garbled) = Inr 0"
  using get_vram_usage_failures [where w = no_gpu and e = FileNotFoundError and pf = float_of_digits]
        get_vram_usage_failures
          [where w = smi_failed and rc = 9 and out = "''NVIDIA-SMI has failed''"
             and pf = float_of_digits]
        get_vram_usage_failures [where w = smi_silent and rc = 0 and out = "[]" and pf = float_of_digits]
        get_vram_usage_failures
          [where w = smi_garbled and rc = 0 and out = "printed [''[N/A]'']" and pf = float_of_digits]
  by (simp add: no_gpu_def smi_failed_def smi_silent_def smi_garbled_def calm_def printed_def
      strip_def splitlines_def is_space_def is_linebreak_def LF_def
      float_of_digits_def is_digit_def)

subsection \<open>Listing the loaded models\<close>

lemma get_vram_usage_obs:
  "listings (fst (get_vram_usage pf w)) = []" "posts (fst (get_vram_usage pf w)) = []"
  "unloads (fst (get_vram_usage pf w)) = []" "sleeps (fst (get_vram_usage pf w)) = []"
  by (simp_all add: get_vram_usage_def read_smi_def split: run_outcome.splits sum.splits)





subsection \<open>The eviction loop and the one-shot mode\<close>

lemma unload_model_returns:
  "dry_run self \<or> uninterrupted w k \<Longrightarrow> snd (unload_model self (gen w k) n) = Inr ()"
  by (auto simp add: unload_model_def uninterrupted_def split: post_outcome.splits)







lemma init_threshold: "init p t h i d = (init p t' h i d)\<lparr>threshold_mb := t\<rparr>"
  by (simp add: init_def)







subsection \<open>The monitor loop\<close>

lemma guard_fields:
  "threshold_mb (guard t d p) = t" "ollama_url (guard t d p) = localhost"
  "interval (guard t d p) = 1" "dry_run (guard t d p) = d" "system (guard t d p) = p"
  by (simp_all add: guard_def init_def)

lemma sample_500: "get_vram_usage float_of_digits quiet_tick = ([Run nvidia_smi], Inr 500)"
  by (simp add: quiet_tick_def calm_def get_vram_usage_def read_smi_def printed_def strip_def
        splitlines_def is_space_def is_linebreak_def LF_def float_of_digits_def is_digit_def)

lemma sample_1500: "get_vram_usage float_of_digits busy_tick = ([Run nvidia_smi], Inr 1500)"
  by (simp add: busy_tick_def calm_def get_vram_usage_def read_smi_def printed_def strip_def
        splitlines_def is_space_def is_linebreak_def LF_def float_of_digits_def is_digit_def)

lemma quiet_tick_body:
  "tick_body float_of_digits (guard 1000 d p) quiet_tick =
     ([Run nvidia_smi, Log DEBUG (VramOk 500), Sleep 1], Inr ())"
  by (simp add: tick_body_def sample_500 and_then_def then_do_def on_sample_def emit_def sleep_def
      guard_def init_def)
     (simp add: quiet_tick_def calm_def)

lemma busy_models:
  "get_loaded_models (guard 1000 d p) busy_tick =
     ([Get (localhost @ ''/api/ps'')], Inr (JArr [model ''A'', model ''B'']))"
  by (simp add: get_loaded_models_def fetch_models_def busy_tick_def calm_def guard_def init_def)

lemma busy_unloads:
  "unload_each (guard 1000 d p) busy_tick 0 [model ''A'', model ''B''] =
     ((if d then [Log INFO (DryRunWouldUnload (JStr ''A'')), Log INFO (DryRunWouldUnload (JStr ''B''))]
       else [Log INFO (UnloadingModel (JStr ''A'')),
             Post (localhost @ ''/api/generate'') (payload (JStr ''A'')),
             Log INFO (SuccessfullyUnloaded (JStr ''A'')),
             Log INFO (UnloadingModel (JStr ''B'')),
             Post (localhost @ ''/api/generate'') (payload (JStr ''B'')),
             Log INFO (SuccessfullyUnloaded (JStr ''B''))]), Inr ())"
  by (simp add: model_def lift_def and_then_def then_do_def ret_def unload_model_def
      busy_tick_def calm_def guard_def init_def)

lemma busy_tick_body:
  "tick_body float_of_digits (guard 1000 d p) busy_tick =
     ([Run nvidia_smi, Log WARNING (HighVram 1500 1000), Get (localhost @ ''/api/ps''),
       Log INFO (FoundLoaded 2)] @
      fst (unload_each (guard 1000 d p) busy_tick 0 [model ''A'', model ''B'']) @ [Sleep 1], Inr ())"
proof -
  have m: "threshold_mb (guard 1000 d p) = 1000" "interval (guard 1000 d p) = 1"
    "sleep_try busy_tick = None"
    by (simp_all add: guard_def init_def busy_tick_def calm_def)
  show ?thesis
    by (simp add: tick_body_def sample_1500 on_sample_def busy_models busy_unloads m
        and_then_def then_do_def emit_def lift_def sleep_def del: unload_each.simps)
qed

text \<open>
  C8. Threshold 1000, interval 1, samples 500, 1500, 500 over three ticks, the models
  A and B loaded on the second tick. Whatever the platform and the dry-run flag, the
  loop lists the models exactly once and calls \<^verbatim>\<open>unload_model\<close> for A and then for B;
  the first and the third tick make no listing, no call and no request. Apart from log
  calls the run is: sample, sleep; sample, listing, eviction of A, eviction of B, sleep;
  sample, sleep (under dry-run the two eviction requests are not sent). The loop is
  still running after the three ticks.
\<close>

theorem three_tick_scenario:
  "effects (fst (monitor_loop float_of_digits (guard 1000 False p) [quiet_tick, busy_tick, quiet_tick])) =
     [Run nvidia_smi, Sleep 1,
      Run nvidia_smi, Get (localhost @ ''/api/ps''),
      Post (localhost @ ''/api/generate'') (payload (JStr ''A'')),
      Post (localhost @ ''/api/generate'') (payload (JStr ''B'')), Sleep 1,
      Run nvidia_smi, Sleep 1] \<and>
   effects (fst (monitor_loop float_of_digits (guard 1000 True p) [quiet_tick, busy_tick, quiet_tick])) =
     [Run nvidia_smi, Sleep 1, Run nvidia_smi, Get (localhost @ ''/api/ps''), Sleep 1,
      Run nvidia_smi, Sleep 1] \<and>
   listings (fst (monitor_loop float_of_digits (guard 1000 d p) [quiet_tick, busy_tick, quiet_tick])) =
     [localhost @ ''/api/ps''] \<and>
   unloads (fst (monitor_loop float_of_digits (guard 1000 d p) [quiet_tick, busy_tick, quiet_tick])) =
     [JStr ''A'', JStr ''B''] \<and>
   snd (monitor_loop float_of_digits (guard 1000 d p) [quiet_tick, busy_tick, quiet_tick]) = None \<and>
   listings (fst (tick_body float_of_digits (guard 1000 d p) quiet_tick)) = [] \<and>
   unloads (fst (tick_body float_of_digits (guard 1000 d p) quiet_tick)) = [] \<and>
   posts (fst (tick_body float_of_digits (guard 1000 d p) quiet_tick)) = [] \<and>
   unloads (fst (tick_body float_of_digits (guard 1000 d p) busy_tick)) = [JStr ''A'', JStr ''B'']"
  by (simp add: monitor_loop_def after_def quiet_tick_body busy_tick_body busy_unloads effects_def
      del: unload_each.simps)


lemma get_vram_usage_raises:
  "snd (get_vram_usage pf w) = Inl e \<Longrightarrow> smi w = RunRaises e \<and> \<not> is_Exception e"
  by (auto simp add: get_vram_usage_def read_smi_def
      split: run_outcome.splits if_splits sum.splits dest: sum_floats_raises)

lemma get_vram_usage_steady: "steady w \<Longrightarrow> \<exists>s. snd (get_vram_usage pf w) = Inr s"
proof (cases "snd (get_vram_usage pf w)")
  case (Inl e)
  assume "steady w"
  with get_vram_usage_raises [OF Inl] show ?thesis by (simp add: steady_def)
qed simp

lemma py_get_raises: "py_get v key dflt = Inl e \<Longrightarrow> is_Exception e"
  by (cases v) auto

lemma get_loaded_models_steady: "steady w \<Longrightarrow> \<exists>v. snd (get_loaded_models self w) = Inr v"
  by (auto simp add: steady_def get_loaded_models_def fetch_models_def
      split: get_outcome.splits sum.splits dest: py_get_raises)

lemma unload_each_steady:
  "\<forall>k. uninterrupted w k \<Longrightarrow> snd (unload_each self w k ms) = Inl e \<Longrightarrow> is_Exception e"
proof (induction ms arbitrary: k)
  case Nil
  then show ?case by (simp add: ret_def)
next
  case (Cons m ms)
  from Cons.prems(1) have "snd (unload_model self (gen w k) n) = Inr ()" for n
    by (simp add: unload_model_returns)
  with Cons show ?case
    by (cases m) (auto simp add: seq_simps lift_def split: sum.splits)
qed

lemma py_raises: "py_len v = Inl e \<Longrightarrow> is_Exception e" "py_iter v = Inl e \<Longrightarrow> is_Exception e"
  by (cases v; auto)+

lemma on_sample_steady:
  assumes "steady w"
  shows "snd (on_sample self w s) = Inl e \<Longrightarrow> is_Exception e \<and> sleeps (fst (on_sample self w s)) = []"
    and "snd (on_sample self w s) = Inr u \<Longrightarrow>
           sleeps (fst (on_sample self w s)) = [interval self] \<and>
           last (fst (on_sample self w s)) = Sleep (interval self)"
proof -
  from assms have n: "sleep_try w = None" and u: "\<forall>k. uninterrupted w k"
    by (simp_all add: steady_def)
  obtain v where v: "snd (get_loaded_models self w) = Inr v"
    using get_loaded_models_steady [OF assms] by blast
  { assume "snd (on_sample self w s) = Inl e"
    then show "is_Exception e \<and> sleeps (fst (on_sample self w s)) = []"
      using n v unload_each_steady [OF u] py_raises
      by (auto simp add: on_sample_def seq_simps emit_def lift_def sleep_def obs_append
          get_loaded_models_obs unload_each_quiet split: sum.splits if_splits) }
  { assume "snd (on_sample self w s) = Inr u"
    then show "sleeps (fst (on_sample self w s)) = [interval self] \<and>
           last (fst (on_sample self w s)) = Sleep (interval self)"
      using n v
      by (auto simp add: on_sample_def seq_simps emit_def lift_def sleep_def obs_append
          get_loaded_models_obs unload_each_quiet split: sum.splits if_splits) }
qed

lemma tick_body_steady:
  assumes "steady w"
  shows "snd (tick_body pf self w) = Inl e \<Longrightarrow> is_Exception e \<and> sleeps (fst (tick_body pf self w)) = []"
    and "snd (tick_body pf self w) = Inr u \<Longrightarrow>
           sleeps (fst (tick_body pf self w)) = [interval self] \<and>
           last (fst (tick_body pf self w)) = Sleep (interval self)"
proof -
  obtain s where s: "snd (get_vram_usage pf w) = Inr s"
    using get_vram_usage_steady [OF assms] by blast
  { assume "snd (tick_body pf self w) = Inl e"
    with s on_sample_steady(1) [OF assms, of self s e]
    show "is_Exception e \<and> sleeps (fst (tick_body pf self w)) = []"
      by (simp add: tick_body_def seq_simps obs_append get_vram_usage_obs) }
  { assume r: "snd (tick_body pf self w) = Inr u"
    with s have o: "snd (on_sample self w s) = Inr u"
      by (simp add: tick_body_def seq_simps)
    from on_sample_steady(2) [OF assms o] have "fst (on_sample self w s) \<noteq> []" by auto
    with s on_sample_steady(2) [OF assms o]
    show "sleeps (fst (tick_body pf self w)) = [interval self] \<and>
           last (fst (tick_body pf self w)) = Sleep (interval self)"
      by (simp add: tick_body_def seq_simps obs_append get_vram_usage_obs) }
qed

lemma ticks_steady_step:
  assumes "steady w"
  shows "ticks pf self (w # ws) =
           after (fst (tick_body pf self w) @ recovery self (snd (tick_body pf self w)))
             (ticks pf self ws)"
proof -
  obtain t r where tb: "tick_body pf self w = (t, r)"
    by (cases "tick_body pf self w")
  show ?thesis
  proof (cases r)
    case (Inl e)
    with tb have "snd (tick_body pf self w) = Inl e" by simp
    from tick_body_steady(1) [OF assms this] have "is_Exception e" "e \<noteq> KeyboardInterrupt"
      by auto
    moreover from assms have "sleep_handler w = None" by (simp add: steady_def)
    ultimately show ?thesis using Inl tb
      by (simp add: recovery_def sleep_def after_def)
  next
    case (Inr u)
    with tb show ?thesis
      by (simp add: recovery_def after_def)
  qed
qed

lemma ticks_steady_all:
  "list_all steady ws \<Longrightarrow>
     snd (ticks pf self ws) = None \<and>
     sleeps (fst (ticks pf self ws)) = replicate (length ws) (interval self)"
proof (induction ws)
  case Nil
  show ?case by simp
next
  case (Cons w ws)
  then have st: "steady w" by simp
  have "sleeps (fst (tick_body pf self w) @ recovery self (snd (tick_body pf self w))) = [interval self]"
  proof (cases "snd (tick_body pf self w)")
    case (Inl e)
    with tick_body_steady(1) [OF st Inl] show ?thesis
      by (simp add: recovery_def obs_append)
  next
    case (Inr u)
    with tick_body_steady(2) [OF st Inr] show ?thesis
      by (simp add: recovery_def obs_append)
  qed
  with Cons show ?case
    by (simp add: ticks_steady_step [OF st] after_def obs_append del: ticks.simps)
qed

text \<open>
  C1. In a steady tick, whatever fails during sampling, listing or eviction, the loop
  goes on to the next tick: the run of \<open>w # ws\<close> is the trace of the tick, followed
  when an exception reached the tick boundary by the error log and the sleep of the
  handler, followed by the run of \<open>ws\<close>. That trace ends with a sleep of the
  configured interval and contains exactly this one sleep; an exception that reaches
  the tick boundary is an \<^verbatim>\<open>Exception\<close>. Over steady ticks the loop never ends and
  sleeps once per tick.
\<close>

theorem failing_tick_never_stops_loop:
  assumes "steady w"
  shows "ticks pf self (w # ws) =
           after (fst (tick_body pf self w) @ recovery self (snd (tick_body pf self w)))
             (ticks pf self ws) \<and>
         last (fst (tick_body pf self w) @ recovery self (snd (tick_body pf self w))) =
           Sleep (interval self) \<and>
         sleeps (fst (tick_body pf self w) @ recovery self (snd (tick_body pf self w))) =
           [interval self] \<and>
         (\<forall>e. snd (tick_body pf self w) = Inl e \<longrightarrow> is_Exception e) \<and>
         (list_all steady ws \<longrightarrow>
            snd (ticks pf self (w # ws)) = None \<and>
            sleeps (fst (ticks pf self (w # ws))) = replicate (Suc (length ws)) (interval self))"
proof (intro conjI allI impI)
  show "ticks pf self (w # ws) =
           after (fst (tick_body pf self w) @ recovery self (snd (tick_body pf self w)))
             (ticks pf self ws)"
    using assms by (rule ticks_steady_step)
next
  show "last (fst (tick_body pf self w) @ recovery self (snd (tick_body pf self w))) =
           Sleep (interval self)"
  proof (cases "snd (tick_body pf self w)")
    case (Inl e)
    then show ?thesis by (simp add: recovery_def)
  next
    case (Inr u)
    with tick_body_steady(2) [OF assms Inr] show ?thesis by (simp add: recovery_def)
  qed
next
  show "sleeps (fst (tick_body pf self w) @ recovery self (snd (tick_body pf self w))) =
           [interval self]"
  proof (cases "snd (tick_body pf self w)")
    case (Inl e)
    with tick_body_steady(1) [OF assms Inl] show ?thesis
      by (simp add: recovery_def obs_append)
  next
    case (Inr u)
    with tick_body_steady(2) [OF assms Inr] show ?thesis
      by (simp add: recovery_def obs_append)
  qed
next
  fix e assume "snd (tick_body pf self w) = Inl e"
  with tick_body_steady(1) [OF assms] show "is_Exception e" by simp
next
  assume "list_all steady ws"
  with assms have a: "list_all steady (w # ws)" by simp
  from ticks_steady_all [OF a, of pf self]
  show "snd (ticks pf self (w # ws)) = None"
    "sleeps (fst (ticks pf self (w # ws))) = replicate (Suc (length ws)) (interval self)"
    by simp_all
qed


theorem failing_tick_never_stops_loop_witness:
  "steady misshapen \<and> list_all steady [flaky, quiet_tick] \<and>
   tick_body float_of_digits (guard 1000 False ''Linux'') misshapen =
     ([Run nvidia_smi, Log WARNING (HighVram 1500 1000), Get (localhost @ ''/api/ps''),
       Log INFO (FoundLoaded 1)], Inl AttributeError) \<and>
   ticks float_of_digits (guard 1000 False ''Linux'') [misshapen, flaky, quiet_tick] =
     after [Run nvidia_smi, Log WARNING (HighVram 1500 1000), Get (localhost @ ''/api/ps''),
            Log INFO (FoundLoaded 1), Log ERROR (UnexpectedError AttributeError), Sleep 1]
       (ticks float_of_digits (guard 1000 False ''Linux'') [flaky, quiet_tick]) \<and>
   snd (ticks float_of_digits (guard 1000 False ''Linux'') [misshapen, flaky, quiet_tick]) = None \<and>
   sleeps (fst (ticks float_of_digits (guard 1000 False ''Linux'') [misshapen, flaky, quiet_tick])) =
     [1, 1, 1]"
proof -
  have s: "steady misshapen"
    by (simp add: steady_def misshapen_def calm_def uninterrupted_def)
  have l: "list_all steady [flaky, quiet_tick]"
    by (simp add: steady_def flaky_def quiet_tick_def calm_def uninterrupted_def)
  have v: "get_vram_usage float_of_digits misshapen = ([Run nvidia_smi], Inr 1500)"
    by (simp add: misshapen_def calm_def get_vram_usage_def read_smi_def printed_def strip_def
        splitlines_def is_space_def is_linebreak_def LF_def float_of_digits_def is_digit_def)
  have g: "get_loaded_models (guard 1000 False ''Linux'') misshapen =
      ([Get (localhost @ ''/api/ps'')], Inr (JArr [JStr ''A'']))"
    by (simp add: get_loaded_models_def fetch_models_def misshapen_def calm_def guard_def init_def)
  have t: "tick_body float_of_digits (guard 1000 False ''Linux'') misshapen =
     ([Run nvidia_smi, Log WARNING (HighVram 1500 1000), Get (localhost @ ''/api/ps''),
       Log INFO (FoundLoaded 1)], Inl AttributeError)"
    by (simp add: tick_body_def v on_sample_def g guard_fields
        and_then_def then_do_def emit_def lift_def)
  note th = failing_tick_never_stops_loop
    [OF s, of float_of_digits "guard 1000 False ''Linux''" "[flaky, quiet_tick]"]
  have r: "fst (tick_body float_of_digits (guard 1000 False ''Linux'') misshapen) @
      recovery (guard 1000 False ''Linux'')
        (snd (tick_body float_of_digits (guard 1000 False ''Linux'') misshapen)) =
      [Run nvidia_smi, Log WARNING (HighVram 1500 1000), Get (localhost @ ''/api/ps''),
       Log INFO (FoundLoaded 1), Log ERROR (UnexpectedError AttributeError), Sleep 1]"
    by (simp add: t recovery_def guard_fields)
  have 1: "ticks float_of_digits (guard 1000 False ''Linux'') [misshapen, flaky, quiet_tick] =
     after [Run nvidia_smi, Log WARNING (HighVram 1500 1000), Get (localhost @ ''/api/ps''),
            Log INFO (FoundLoaded 1), Log ERROR (UnexpectedError AttributeError), Sleep 1]
       (ticks float_of_digits (guard 1000 False ''Linux'') [flaky, quiet_tick])"
    using th [THEN conjunct1] unfolding r .
  have 2: "snd (ticks float_of_digits (guard 1000 False ''Linux'') [misshapen, flaky, quiet_tick]) = None"
    and 3: "sleeps (fst (ticks float_of_digits (guard 1000 False ''Linux'') [misshapen, flaky, quiet_tick])) =
     [1, 1, 1]"
    using th [THEN conjunct2, THEN conjunct2, THEN conjunct2, THEN conjunct2, THEN mp, OF l]
    by (simp_all add: guard_fields del: ticks.simps)
  show ?thesis
    by (intro conjI) (rule s l t 1 2 3)+
qed

end
